theory Spec2Isabelle
  imports Main
begin

section \<open>Data model of the resource helper\<close>

text \<open>
  The helper \<^verbatim>\<open>AddonModResourceHelperProvider\<close> (helper.ts) receives a module object and
  reads its fields \<^verbatim>\<open>id\<close>, \<^verbatim>\<open>course\<close>, \<^verbatim>\<open>instance\<close>, \<^verbatim>\<open>url\<close>, \<^verbatim>\<open>contents\<close> and
  \<^verbatim>\<open>completionstatus\<close>. Of a content entry it reads \<^verbatim>\<open>filename\<close>, \<^verbatim>\<open>filepath\<close> and
  \<^verbatim>\<open>fileurl\<close>. JavaScript strings are sequences of code units; they are modelled as
  \<^typ>\<open>string\<close>. A \<^verbatim>\<open>fileurl\<close> that is absent (\<^verbatim>\<open>undefined\<close>) is \<^term>\<open>None\<close>. The completion
  status is passed through unread, so its type is a parameter.
\<close>

record content_file =
  filename :: string
  filepath :: string
  fileurl :: "string option"

record 'c module =
  id_m :: int
  course_m :: int
  instance_m :: int
  url :: string
  contents :: "content_file list"
  completionstatus :: 'c

text \<open>The value the download helper resolves with; the helper reads its \<^verbatim>\<open>path\<close>.\<close>

record download_result =
  path :: string

text \<open>
  What a JavaScript expression can throw here, and what a promise can be rejected with:
  the literal \<^verbatim>\<open>null\<close>, a runtime exception, or the cause a collaborator failed with.
\<close>

datatype js_exception = TypeError

datatype 'e reason = Null | Exception js_exception | Cause 'e

text \<open>
  A synchronous function returns \<open>js_exception + 'a\<close> (\<open>Inl\<close>: it threw). A settled promise
  is \<open>'e reason + 'a\<close> (\<open>Inl\<close>: rejected). A function that returns a promise therefore has
  the result type \<open>js_exception + ('e reason + 'a)\<close>. The promises of the collaborators are
  modelled by their settlement.
\<close>

type_synonym ('e, 'a) promise = "'e reason + 'a"

subsection \<open>Collaborators\<close>

text \<open>
  The services injected by the constructor are defined in other files. They are the
  fields of an environment: the mimetype utility, the file provider, the app provider,
  the filepool, the text utility, the sites provider, the course helper and the
  resource provider, and the static \<^verbatim>\<open>AddonModResourceProvider.COMPONENT\<close>.
\<close>

record ('c, 'e) env =
  getFileExtension :: "string \<Rightarrow> string"
  getExtensionType :: "string \<Rightarrow> string"
  getMimeType :: "string \<Rightarrow> string"
  canBeEmbedded :: "string \<Rightarrow> bool"
  isAvailable :: bool
  isOnline :: bool
  getCurrentSiteId :: string
  getPackageDirUrlByUrl :: "string \<Rightarrow> string \<Rightarrow> ('e, string) promise"
  concatenatePaths :: "string \<Rightarrow> string \<Rightarrow> string"
  fixPluginfileURL :: "string \<Rightarrow> string"
  COMPONENT :: string
  downloadModuleWithMainFileIfNeeded ::
    "'c module \<Rightarrow> int \<Rightarrow> string \<Rightarrow> int \<Rightarrow> content_file list \<Rightarrow> ('e, download_result) promise"
  downloadModuleAndOpenFile ::
    "'c module \<Rightarrow> int \<Rightarrow> string \<Rightarrow> int \<Rightarrow> content_file list \<Rightarrow> ('e, unit) promise"
  logView :: "int \<Rightarrow> ('e, unit) promise"

subsection \<open>JavaScript primitives used by the helper\<close>

text \<open>\<^verbatim>\<open>xs[0]\<close>: the first element, \<^verbatim>\<open>undefined\<close> (\<^term>\<open>None\<close>) for an empty array.\<close>

definition at0 :: "'a list \<Rightarrow> 'a option" where
  "at0 xs = (case xs of [] \<Rightarrow> None | x # _ \<Rightarrow> Some x)"

text \<open>\<^verbatim>\<open>v.f\<close>: reading a property of \<^verbatim>\<open>undefined\<close> throws a TypeError.\<close>

definition get_prop :: "'a option \<Rightarrow> ('a \<Rightarrow> 'b) \<Rightarrow> js_exception + 'b" where
  "get_prop v f = (case v of None \<Rightarrow> Inl TypeError | Some x \<Rightarrow> Inr (f x))"

text \<open>\<^verbatim>\<open>s.substr(1)\<close>: the string without its first code unit.\<close>

definition substr1 :: "string \<Rightarrow> string" where
  "substr1 s = drop 1 s"

text \<open>
  \<^verbatim>\<open>p.then(f)\<close> and \<^verbatim>\<open>p.catch(h)\<close> on settled promises. The callback's own outcome (a
  returned value or promise, or a thrown exception) is the outcome of the new promise.
\<close>

definition p_then :: "('e, 'a) promise \<Rightarrow> ('a \<Rightarrow> ('e, 'b) promise) \<Rightarrow> ('e, 'b) promise" where
  "p_then p f = (case p of Inl r \<Rightarrow> Inl r | Inr v \<Rightarrow> f v)"

definition p_catch :: "('e, 'a) promise \<Rightarrow> ('e reason \<Rightarrow> ('e, 'a) promise) \<Rightarrow> ('e, 'a) promise" where
  "p_catch p h = (case p of Inl r \<Rightarrow> h r | Inr v \<Rightarrow> Inr v)"

section \<open>The helper's operations\<close>

definition DISPLAY_AUTO :: int where
  "DISPLAY_AUTO = 0"

definition DISPLAY_EMBED :: int where
  "DISPLAY_EMBED = 1"

text \<open>\<^verbatim>\<open>isDisplayedEmbedded(module, display)\<close>, helper.ts lines 118 to 126.\<close>

definition isDisplayedEmbedded :: "('c, 'e) env \<Rightarrow> 'c module \<Rightarrow> int \<Rightarrow> js_exception + bool" where
  "isDisplayedEmbedded e m display =
     (if length (contents m) = 0 \<or> \<not> isAvailable e then Inr False
      else case get_prop (at0 (contents m)) filename of
             Inl x \<Rightarrow> Inl x
           | Inr fn \<Rightarrow>
               (let ext = getFileExtension e fn
                in Inr ((display = DISPLAY_EMBED \<or> display = DISPLAY_AUTO) \<and> canBeEmbedded e ext)))"

text \<open>\<^verbatim>\<open>isDisplayedInIframe(module)\<close>, helper.ts lines 134 to 143.\<close>

definition isDisplayedInIframe :: "('c, 'e) env \<Rightarrow> 'c module \<Rightarrow> js_exception + bool" where
  "isDisplayedInIframe e m =
     (if length (contents m) = 0 \<or> \<not> isAvailable e then Inr False
      else case get_prop (at0 (contents m)) filename of
             Inl x \<Rightarrow> Inl x
           | Inr fn \<Rightarrow>
               (let ext = getFileExtension e fn;
                    mimetype = getMimeType e ext
                in Inr (mimetype = ''text/html'')))"

text \<open>
  \<^verbatim>\<open>getIframeSrc(module)\<close>, helper.ts lines 85 to 109. The two reads of \<^verbatim>\<open>mainFile\<close> happen
  (\<^verbatim>\<open>filename\<close>, \<^verbatim>\<open>filepath\<close>) happen before the promise chain is built, so a read of
  an absent \<^verbatim>\<open>mainFile\<close> would be thrown synchronously.
  \<^verbatim>\<open>mainFile.fileurl\<close> is truthy when it is present and not the empty string.
\<close>

definition mainFilePath :: "content_file \<Rightarrow> string" where
  "mainFilePath mainFile =
     (if filepath mainFile \<noteq> ''/'' then substr1 (filepath mainFile) @ filename mainFile
      else filename mainFile)"

definition getIframeSrc :: "('c, 'e) env \<Rightarrow> 'c module \<Rightarrow> js_exception + ('e, string) promise" where
  "getIframeSrc e m =
     (if length (contents m) = 0 then Inr (Inl Null)
      else case at0 (contents m) of
             None \<Rightarrow> Inl TypeError
           | Some mainFile \<Rightarrow>
               Inr (p_catch
                 (p_then (getPackageDirUrlByUrl e (getCurrentSiteId e) (url m))
                    (\<lambda>dirPath. Inr (concatenatePaths e dirPath (mainFilePath mainFile))))
                 (\<lambda>_. case fileurl mainFile of
                         None \<Rightarrow> Inl Null
                       | Some u \<Rightarrow>
                           if isOnline e \<and> u \<noteq> [] then Inr (fixPluginfileURL e u)
                           else Inl Null)))"

text \<open>
  \<^verbatim>\<open>getEmbeddedHtml(module)\<close>, helper.ts lines 56 to 77. \<^verbatim>\<open>module.contents[0]\<close> is read
  inside the \<^verbatim>\<open>then\<close> callback, so a failing read of \<^verbatim>\<open>file.filename\<close> rejects the promise.
\<close>

definition getEmbeddedHtml :: "('c, 'e) env \<Rightarrow> 'c module \<Rightarrow> js_exception + ('e, string) promise" where
  \<open>getEmbeddedHtml e m =
     Inr (p_then
       (downloadModuleWithMainFileIfNeeded e m (course_m m) (COMPONENT e) (id_m m) (contents m))
       (\<lambda>result.
          case at0 (contents m) of
            None \<Rightarrow> Inl (Exception TypeError)
          | Some file \<Rightarrow>
              (let ext = getFileExtension e (filename file);
                   type = getExtensionType e ext;
                   mimeType = getMimeType e ext
               in if type = ''image'' then
                    Inr (''<img src="'' @ path result @ ''"></img>'')
                  else if type = ''audio'' \<or> type = ''video'' then
                    Inr (''<'' @ type @ '' controls title="'' @ filename file @ ''"" src="''
                           @ path result @ ''">''
                         @ ''<source src="'' @ path result @ ''" type="'' @ mimeType @ ''">''
                         @ ''</'' @ type @ ''>'')
                  else Inr [])))\<close>

subsection \<open>Opening the file: effects in order\<close>

text \<open>
  \<^verbatim>\<open>openModuleFile\<close> calls collaborators for their effects. Each call is an event. The
  events of the returned promise chain are kept in the order they happen (\<open>awaited\<close>).
  The continuation of \<^verbatim>\<open>logView\<close> is not part of the returned chain: nothing orders it
  against the rest, and its events are kept apart (\<open>detached\<close>).
\<close>

datatype ('c, 'e) event =
    ShowModalLoading
  | DownloadModuleAndOpenFile "'c module" int string int "content_file list"
  | LogView int
  | CheckModuleCompletion int 'c
  | ShowErrorModalDefault "'e reason" string bool
  | ModalDismiss

record ('c, 'e) effects =
  awaited :: "('c, 'e) event list"
  detached :: "('c, 'e) event list"

definition no_effects :: "('c, 'e) effects" where
  "no_effects = \<lparr>awaited = [], detached = []\<rparr>"

definition emit :: "('c, 'e) event \<Rightarrow> ('c, 'e) effects \<Rightarrow> ('c, 'e) effects" where
  "emit ev s = s\<lparr>awaited := awaited s @ [ev]\<rparr>"

definition emit_detached :: "('c, 'e) event \<Rightarrow> ('c, 'e) effects \<Rightarrow> ('c, 'e) effects" where
  "emit_detached ev s = s\<lparr>detached := detached s @ [ev]\<rparr>"

text \<open>
  A promise together with the effects so far. \<^verbatim>\<open>then\<close>, \<^verbatim>\<open>catch\<close> and \<^verbatim>\<open>finally\<close> run
  their callback on the matching settlement; \<^verbatim>\<open>finally\<close> keeps the settlement it was
  given unless its callback fails.
\<close>

type_synonym ('c, 'e, 'a) running = "('e, 'a) promise \<times> ('c, 'e) effects"

definition e_then ::
  "('c, 'e, 'a) running \<Rightarrow> ('a \<Rightarrow> ('c, 'e) effects \<Rightarrow> ('c, 'e, 'b) running) \<Rightarrow> ('c, 'e, 'b) running" where
  "e_then p f = (case p of (Inl r, s) \<Rightarrow> (Inl r, s) | (Inr v, s) \<Rightarrow> f v s)"

definition e_catch ::
  "('c, 'e, 'a) running \<Rightarrow> ('e reason \<Rightarrow> ('c, 'e) effects \<Rightarrow> ('c, 'e, 'a) running) \<Rightarrow> ('c, 'e, 'a) running" where
  "e_catch p h = (case p of (Inl r, s) \<Rightarrow> h r s | (Inr v, s) \<Rightarrow> (Inr v, s))"

definition e_finally ::
  "('c, 'e, 'a) running \<Rightarrow> (('c, 'e) effects \<Rightarrow> ('c, 'e, unit) running) \<Rightarrow> ('c, 'e, 'a) running" where
  "e_finally p f =
     (case p of (out, s) \<Rightarrow>
        (case f s of (Inl r, s') \<Rightarrow> (Inl r, s') | (Inr _, s') \<Rightarrow> (out, s')))"

text \<open>
  The un-awaited \<^verbatim>\<open>logView(module.instance).then(...)\<close> of lines 158 to 160: the
  completion check runs only when the view was logged; a failure has no handler.
\<close>

definition logView_then ::
  "('c, 'e) env \<Rightarrow> 'c module \<Rightarrow> int \<Rightarrow> ('c, 'e) effects \<Rightarrow> ('c, 'e) effects" where
  "logView_then e m courseId s =
     (case logView e (instance_m m) of
        Inl _ \<Rightarrow> s
      | Inr _ \<Rightarrow> emit_detached (CheckModuleCompletion courseId (completionstatus m)) s)"

text \<open>\<^verbatim>\<open>openModuleFile(module, courseId)\<close>, helper.ts lines 152 to 166.\<close>

definition openModuleFile ::
  "('c, 'e) env \<Rightarrow> 'c module \<Rightarrow> int \<Rightarrow> ('c, 'e, unit) running" where
  "openModuleFile e m courseId =
     (let modal = emit ShowModalLoading no_effects
      in e_finally
           (e_catch
              (e_then
                 (downloadModuleAndOpenFile e m courseId (COMPONENT e) (id_m m) (contents m),
                  emit (DownloadModuleAndOpenFile m courseId (COMPONENT e) (id_m m) (contents m)) modal)
                 (\<lambda>_ s. (Inr (), logView_then e m courseId (emit (LogView (instance_m m)) s))))
              (\<lambda>error s.
                 (Inr (), emit (ShowErrorModalDefault error
                                  ''addon.mod_resource.errorwhileloadingthecontent'' True) s)))
           (\<lambda>s. (Inr (), emit ModalDismiss s)))"

subsection \<open>The path join of the text utility\<close>

text \<open>Modelled from the spec: \<^verbatim>\<open>CoreTextUtilsProvider.concatenatePaths\<close> is defined in
  \<^verbatim>\<open>@providers/utils/text\<close>, which is not among the sources. The specification says of
  it that the helper "concatenates that directory with the relative path" and that the
  rule is "applied literally", with no separator inserted.
\<close>

definition concatenatePaths_spec :: "string \<Rightarrow> string \<Rightarrow> string" where
  "concatenatePaths_spec leftPath rightPath = leftPath @ rightPath"

subsection \<open>A concrete environment and module\<close>

text \<open>
  One site with storage, network and a cached package, a mimetype table of two
  extensions, and a resource with one HTML page; used to run the operations.
\<close>

definition sample_env :: "(nat, string) env" where
  "sample_env =
     \<lparr>getFileExtension =
        (\<lambda>fn. if fn = ''index.html'' then ''html'' else if fn = ''song.mp3'' then ''mp3'' else []),
      getExtensionType = (\<lambda>x. if x = ''mp3'' then ''audio'' else []),
      getMimeType =
        (\<lambda>x. if x = ''html'' then ''text/html'' else if x = ''mp3'' then ''audio/mp3'' else []),
      canBeEmbedded = (\<lambda>x. x = ''mp3''),
      isAvailable = True,
      isOnline = True,
      getCurrentSiteId = ''site1'',
      getPackageDirUrlByUrl = (\<lambda>_ _. Inr ''/cache/42''),
      concatenatePaths = (\<lambda>leftPath rightPath. leftPath @ rightPath),
      fixPluginfileURL = (\<lambda>u. u @ ''?token=t''),
      COMPONENT = ''mmaModResource'',
      downloadModuleWithMainFileIfNeeded = (\<lambda>_ _ _ _ _. Inr \<lparr>path = ''/data/song.mp3''\<rparr>),
      downloadModuleAndOpenFile = (\<lambda>_ _ _ _ _. Inr ()),
      logView = (\<lambda>_. Inr ())\<rparr>"

definition sample_file :: content_file where
  "sample_file = \<lparr>filename = ''index.html'', filepath = ''/'', fileurl = Some ''https://s/f/index.html''\<rparr>"

definition sample_module :: "nat module" where
  "sample_module =
     \<lparr>id_m = 42, course_m = 7, instance_m = 3, url = ''https://s/mod/resource/view.php?id=42'',
      contents = [sample_file], completionstatus = 0\<rparr>"

section \<open>Properties\<close>

text \<open>
  Claim C1. For every module and every display value, \<^verbatim>\<open>isDisplayedEmbedded\<close> returns
  true exactly when the display value is automatic (0) or forced embed (1), the mimetype
  utility reports the extension of the main file's name embeddable, and file storage is
  available. With no main file it returns false, and for every display value other than
  0 and 1 it returns false.
\<close>

theorem isDisplayedEmbedded_iff:
  "isDisplayedEmbedded e m display =
     Inr (case contents m of
            [] \<Rightarrow> False
          | mainFile # _ \<Rightarrow>
              (display = 0 \<or> display = 1)
              \<and> canBeEmbedded e (getFileExtension e (filename mainFile))
              \<and> isAvailable e)
   \<and> (display \<noteq> 0 \<and> display \<noteq> 1 \<longrightarrow> isDisplayedEmbedded e m display = Inr False)"
  by (auto simp: isDisplayedEmbedded_def get_prop_def at0_def DISPLAY_AUTO_def DISPLAY_EMBED_def
           split: list.splits)

text \<open>The same at a concrete input.\<close>

theorem isDisplayedEmbedded_iff_witness:
  "isDisplayedEmbedded (sample_env\<lparr>canBeEmbedded := \<lambda>x. x = ''html''\<rparr>) sample_module 1 = Inr True
   \<and> isDisplayedEmbedded (sample_env\<lparr>canBeEmbedded := \<lambda>x. x = ''html''\<rparr>) sample_module 5 = Inr False"
  using isDisplayedEmbedded_iff [of "sample_env\<lparr>canBeEmbedded := \<lambda>x. x = ''html''\<rparr>" sample_module 1]
        isDisplayedEmbedded_iff [of "sample_env\<lparr>canBeEmbedded := \<lambda>x. x = ''html''\<rparr>" sample_module 5]
  by (simp add: sample_env_def sample_module_def sample_file_def)

text \<open>
  Claim C2. For a module whose \<^verbatim>\<open>contents\<close> is not empty, \<^verbatim>\<open>isDisplayedInIframe\<close>
  returns true exactly when the MIME type of the main file's extension is \<^verbatim>\<open>text/html\<close>
  and file storage is available. The function takes no display argument, and modules
  with the same \<^verbatim>\<open>contents\<close> get the same answer whatever else they carry.
\<close>

theorem isDisplayedInIframe_iff:
  "contents m = mainFile # rest \<Longrightarrow>
     isDisplayedInIframe e m =
       Inr (getMimeType e (getFileExtension e (filename mainFile)) = ''text/html'' \<and> isAvailable e)
     \<and> (\<forall>m'. contents m' = contents m \<longrightarrow> isDisplayedInIframe e m' = isDisplayedInIframe e m)"
  by (auto simp: isDisplayedInIframe_def get_prop_def at0_def)

text \<open>The same at a concrete input.\<close>

theorem isDisplayedInIframe_iff_witness:
  "contents sample_module = sample_file # []
   \<and> isDisplayedInIframe sample_env sample_module = Inr True
   \<and> isDisplayedInIframe sample_env (sample_module\<lparr>id_m := 9, url := []\<rparr>) = Inr True"
  using isDisplayedInIframe_iff [of sample_module sample_file "[]" sample_env]
  by (simp add: sample_env_def sample_module_def sample_file_def)

text \<open>
  Claim C3. For a module whose \<^verbatim>\<open>contents\<close> is not empty, \<^verbatim>\<open>getIframeSrc\<close> is a
  fallback in two tiers. When the package directory is found, the promise resolves
  with \<^verbatim>\<open>concatenatePaths\<close> of that directory and the main file's relative path: the file
  name alone when the sub-path is the root \<^verbatim>\<open>/\<close>, otherwise the sub-path without its
  first character followed by the file name (a sub-path \<^verbatim>\<open>/p\<close> gives \<^verbatim>\<open>p\<close> and the name).
  When the directory is not found, the device is online and the main file has a
  non-empty \<^verbatim>\<open>fileurl\<close>, it resolves with \<^verbatim>\<open>fixPluginfileURL\<close> of that URL. When the
  directory is not found and the device is offline or the main file has no
  \<^verbatim>\<open>fileurl\<close> (absent or empty), it is rejected.
\<close>

theorem getIframeSrc_two_tier:
  "contents m = mainFile # rest \<Longrightarrow>
     (\<forall>dirPath. getPackageDirUrlByUrl e (getCurrentSiteId e) (url m) = Inr dirPath \<longrightarrow>
        getIframeSrc e m =
          Inr (Inr (concatenatePaths e dirPath
                 (if filepath mainFile = ''/'' then filename mainFile
                  else drop 1 (filepath mainFile) @ filename mainFile))))
     \<and> (\<forall>p. filepath mainFile = CHR ''/'' # p \<and> p \<noteq> [] \<longrightarrow>
            mainFilePath mainFile = p @ filename mainFile)
     \<and> (\<forall>r u. getPackageDirUrlByUrl e (getCurrentSiteId e) (url m) = Inl r
              \<and> isOnline e \<and> fileurl mainFile = Some u \<and> u \<noteq> [] \<longrightarrow>
            getIframeSrc e m = Inr (Inr (fixPluginfileURL e u)))
     \<and> (\<forall>r. getPackageDirUrlByUrl e (getCurrentSiteId e) (url m) = Inl r
            \<and> (\<not> isOnline e \<or> fileurl mainFile = None \<or> fileurl mainFile = Some []) \<longrightarrow>
            getIframeSrc e m = Inr (Inl Null))"
  by (auto simp: getIframeSrc_def at0_def p_then_def p_catch_def mainFilePath_def substr1_def
           split: option.splits)

text \<open>The same at a concrete input.\<close>

theorem getIframeSrc_two_tier_witness:
  "contents (sample_module\<lparr>contents := [sample_file\<lparr>filepath := ''/docs/''\<rparr>]\<rparr>)
     = sample_file\<lparr>filepath := ''/docs/''\<rparr> # []
   \<and> getIframeSrc sample_env (sample_module\<lparr>contents := [sample_file\<lparr>filepath := ''/docs/''\<rparr>]\<rparr>)
       = Inr (Inr ''/cache/42docs/index.html'')
   \<and> mainFilePath (sample_file\<lparr>filepath := ''/docs/''\<rparr>) = ''docs/index.html''
   \<and> getIframeSrc (sample_env\<lparr>getPackageDirUrlByUrl := \<lambda>_ _. Inl (Cause ''not downloaded'')\<rparr>)
         (sample_module\<lparr>contents := [sample_file\<lparr>filepath := ''/docs/''\<rparr>]\<rparr>)
       = Inr (Inr ''https://s/f/index.html?token=t'')
   \<and> getIframeSrc (sample_env\<lparr>getPackageDirUrlByUrl := \<lambda>_ _. Inl (Cause ''not downloaded''),
                               isOnline := False\<rparr>)
         (sample_module\<lparr>contents := [sample_file\<lparr>filepath := ''/docs/''\<rparr>]\<rparr>)
       = Inr (Inl Null)"
  using getIframeSrc_two_tier
          [of "sample_module\<lparr>contents := [sample_file\<lparr>filepath := ''/docs/''\<rparr>]\<rparr>"
              "sample_file\<lparr>filepath := ''/docs/''\<rparr>" "[]" sample_env]
        getIframeSrc_two_tier
          [of "sample_module\<lparr>contents := [sample_file\<lparr>filepath := ''/docs/''\<rparr>]\<rparr>"
              "sample_file\<lparr>filepath := ''/docs/''\<rparr>" "[]"
              "sample_env\<lparr>getPackageDirUrlByUrl := \<lambda>_ _. Inl (Cause ''not downloaded'')\<rparr>"]
        getIframeSrc_two_tier
          [of "sample_module\<lparr>contents := [sample_file\<lparr>filepath := ''/docs/''\<rparr>]\<rparr>"
              "sample_file\<lparr>filepath := ''/docs/''\<rparr>" "[]"
              "sample_env\<lparr>getPackageDirUrlByUrl := \<lambda>_ _. Inl (Cause ''not downloaded''),
                          isOnline := False\<rparr>"]
  by (simp add: sample_env_def sample_module_def sample_file_def)

text \<open>
  Claim C4. In every run of \<^verbatim>\<open>openModuleFile\<close> the loading modal is shown exactly once
  and dismissed exactly once, whatever the download and the view log do. Showing it is
  the first effect, before the call that downloads and opens the file; dismissing it is
  the last effect of the returned chain, after the handlers of the settlement. The
  un-awaited continuation neither shows nor dismisses it.
\<close>

theorem openModuleFile_modal_once:
  "count_list (awaited (snd (openModuleFile e m courseId))) ShowModalLoading = 1
   \<and> count_list (awaited (snd (openModuleFile e m courseId))) ModalDismiss = 1
   \<and> count_list (detached (snd (openModuleFile e m courseId))) ShowModalLoading = 0
   \<and> count_list (detached (snd (openModuleFile e m courseId))) ModalDismiss = 0
   \<and> (\<exists>handled.
         awaited (snd (openModuleFile e m courseId)) =
           ShowModalLoading
           # DownloadModuleAndOpenFile m courseId (COMPONENT e) (id_m m) (contents m)
           # handled @ [ModalDismiss])"
  by (cases "downloadModuleAndOpenFile e m courseId (COMPONENT e) (id_m m) (contents m)";
      cases "logView e (instance_m m)")
     (simp_all add: openModuleFile_def e_finally_def e_catch_def e_then_def emit_def
        emit_detached_def logView_then_def no_effects_def)

text \<open>The same at a concrete input.\<close>

theorem openModuleFile_modal_once_witness:
  "awaited (snd (openModuleFile sample_env sample_module 7)) =
     [ShowModalLoading,
      DownloadModuleAndOpenFile sample_module 7 ''mmaModResource'' 42 [sample_file],
      LogView 3, ModalDismiss]
   \<and> count_list (awaited (snd (openModuleFile sample_env sample_module 7))) ShowModalLoading = 1
   \<and> count_list (awaited (snd (openModuleFile sample_env sample_module 7))) ModalDismiss = 1"
  using openModuleFile_modal_once [of sample_env sample_module 7]
  by (simp add: openModuleFile_def e_finally_def e_catch_def e_then_def emit_def
        emit_detached_def logView_then_def no_effects_def sample_env_def sample_module_def)

text \<open>
  Claim C5. The promise of \<^verbatim>\<open>openModuleFile\<close> is always resolved, never rejected. When
  the download or open step is rejected with an error, that error is shown by
  \<^verbatim>\<open>showErrorModalDefault\<close> with the message key
  \<^verbatim>\<open>addon.mod_resource.errorwhileloadingthecontent\<close> and the translate flag set, the
  modal is dismissed, and the promise still resolves. What \<^verbatim>\<open>logView\<close> does changes
  neither the result nor the effects of the returned chain; when it fails, the
  completion check is not made and nothing is shown.
\<close>

theorem openModuleFile_always_resolves:
  "fst (openModuleFile e m courseId) = Inr ()
   \<and> (\<forall>error. downloadModuleAndOpenFile e m courseId (COMPONENT e) (id_m m) (contents m) = Inl error \<longrightarrow>
         awaited (snd (openModuleFile e m courseId)) =
           [ShowModalLoading,
            DownloadModuleAndOpenFile m courseId (COMPONENT e) (id_m m) (contents m),
            ShowErrorModalDefault error ''addon.mod_resource.errorwhileloadingthecontent'' True,
            ModalDismiss])
   \<and> (\<forall>lv. fst (openModuleFile (e\<lparr>logView := lv\<rparr>) m courseId) = fst (openModuleFile e m courseId)
          \<and> awaited (snd (openModuleFile (e\<lparr>logView := lv\<rparr>) m courseId))
              = awaited (snd (openModuleFile e m courseId)))
   \<and> (\<forall>r. logView e (instance_m m) = Inl r \<longrightarrow> detached (snd (openModuleFile e m courseId)) = [])"
  apply (intro conjI allI impI)
  subgoal by (cases "downloadModuleAndOpenFile e m courseId (COMPONENT e) (id_m m) (contents m)")
       (simp_all add: openModuleFile_def e_finally_def e_catch_def e_then_def)
  subgoal by (simp add: openModuleFile_def e_finally_def e_catch_def e_then_def emit_def no_effects_def)
  subgoal for lv by (cases "downloadModuleAndOpenFile e m courseId (COMPONENT e) (id_m m) (contents m)")
       (simp_all add: openModuleFile_def e_finally_def e_catch_def e_then_def)
  subgoal for lv by (cases "downloadModuleAndOpenFile e m courseId (COMPONENT e) (id_m m) (contents m)";
        cases "logView e (instance_m m)"; cases "lv (instance_m m)")
       (simp_all add: openModuleFile_def e_finally_def e_catch_def e_then_def emit_def
          emit_detached_def logView_then_def no_effects_def)
  subgoal by (cases "downloadModuleAndOpenFile e m courseId (COMPONENT e) (id_m m) (contents m)")
       (simp_all add: openModuleFile_def e_finally_def e_catch_def e_then_def emit_def
          emit_detached_def logView_then_def no_effects_def)
  done

text \<open>The same at a concrete input.\<close>

theorem openModuleFile_always_resolves_witness:
  "openModuleFile (sample_env\<lparr>downloadModuleAndOpenFile := \<lambda>_ _ _ _ _. Inl (Cause ''disk full'')\<rparr>)
       sample_module 7 =
     (Inr (),
      \<lparr>awaited =
         [ShowModalLoading,
          DownloadModuleAndOpenFile sample_module 7 ''mmaModResource'' 42 [sample_file],
          ShowErrorModalDefault (Cause ''disk full'')
            ''addon.mod_resource.errorwhileloadingthecontent'' True,
          ModalDismiss],
       detached = []\<rparr>)
   \<and> openModuleFile (sample_env\<lparr>logView := \<lambda>_. Inl (Cause ''offline'')\<rparr>) sample_module 7 =
     (Inr (),
      \<lparr>awaited =
         [ShowModalLoading,
          DownloadModuleAndOpenFile sample_module 7 ''mmaModResource'' 42 [sample_file],
          LogView 3, ModalDismiss],
       detached = []\<rparr>)"
  using openModuleFile_always_resolves
          [of "sample_env\<lparr>downloadModuleAndOpenFile := \<lambda>_ _ _ _ _. Inl (Cause ''disk full'')\<rparr>"
              sample_module 7]
        openModuleFile_always_resolves
          [of "sample_env\<lparr>logView := \<lambda>_. Inl (Cause ''offline'')\<rparr>" sample_module 7]
  by (simp add: openModuleFile_def e_finally_def e_catch_def e_then_def emit_def
        emit_detached_def logView_then_def no_effects_def sample_env_def sample_module_def)

text \<open>
  Claim C6. For a module whose \<^verbatim>\<open>contents\<close> is empty, \<^verbatim>\<open>isDisplayedEmbedded\<close> returns
  false, \<^verbatim>\<open>isDisplayedInIframe\<close> returns false, and \<^verbatim>\<open>getIframeSrc\<close> returns a rejected
  promise. Each of the three returns; none throws.
\<close>

theorem empty_contents_not_applicable:
  "contents m = [] \<Longrightarrow>
     isDisplayedEmbedded e m display = Inr False
     \<and> isDisplayedInIframe e m = Inr False
     \<and> getIframeSrc e m = Inr (Inl Null)"
  by (simp add: isDisplayedEmbedded_def isDisplayedInIframe_def getIframeSrc_def)

text \<open>The same at a concrete input.\<close>

theorem empty_contents_not_applicable_witness:
  "contents (sample_module\<lparr>contents := []\<rparr>) = []
   \<and> isDisplayedEmbedded sample_env (sample_module\<lparr>contents := []\<rparr>) 0 = Inr False
   \<and> isDisplayedInIframe sample_env (sample_module\<lparr>contents := []\<rparr>) = Inr False
   \<and> getIframeSrc sample_env (sample_module\<lparr>contents := []\<rparr>) = Inr (Inl Null)"
  using empty_contents_not_applicable [of "sample_module\<lparr>contents := []\<rparr>" sample_env 0]
  by (simp add: sample_module_def)

text \<open>
  Claim C7. When the media type of the main file's extension is \<^verbatim>\<open>audio\<close> or \<^verbatim>\<open>video\<close>
  and the download succeeds, \<^verbatim>\<open>getEmbeddedHtml\<close> resolves with markup whose outer tag is
  that type, with the \<^verbatim>\<open>controls\<close> attribute, a \<^verbatim>\<open>title\<close> attribute holding the file name,
  and a nested \<^verbatim>\<open>source\<close> element whose \<^verbatim>\<open>src\<close> is the downloaded path and whose \<^verbatim>\<open>type\<close>
  is the MIME type of the extension. The theorem gives the whole string: the values are
  spliced in as they are, the outer tag has a \<^verbatim>\<open>src\<close> attribute too, and the code writes
  two quote characters after the title value.
\<close>

theorem getEmbeddedHtml_audio_video:
  \<open>contents m = file # rest \<Longrightarrow>
   downloadModuleWithMainFileIfNeeded e m (course_m m) (COMPONENT e) (id_m m) (contents m)
     = Inr result \<Longrightarrow>
   getExtensionType e (getFileExtension e (filename file)) = type \<Longrightarrow>
   type = ''audio'' \<or> type = ''video'' \<Longrightarrow>
   getEmbeddedHtml e m =
     Inr (Inr (''<'' @ type @ '' controls title="'' @ filename file @ ''"" src="'' @ path result
               @ ''">''
               @ ''<source src="'' @ path result @ ''" type="''
               @ getMimeType e (getFileExtension e (filename file)) @ ''">''
               @ ''</'' @ type @ ''>''))\<close>
  by (auto simp: getEmbeddedHtml_def p_then_def at0_def Let_def)

text \<open>The same at a concrete input.\<close>

theorem getEmbeddedHtml_audio_video_witness:
  \<open>contents (sample_module\<lparr>contents := [sample_file\<lparr>filename := ''song.mp3''\<rparr>]\<rparr>)
     = sample_file\<lparr>filename := ''song.mp3''\<rparr> # []
   \<and> getExtensionType sample_env (getFileExtension sample_env ''song.mp3'') = ''audio''
   \<and> getEmbeddedHtml sample_env (sample_module\<lparr>contents := [sample_file\<lparr>filename := ''song.mp3''\<rparr>]\<rparr>)
       = Inr (Inr (''<audio controls title="song.mp3"" src="/data/song.mp3">''
                   @ ''<source src="/data/song.mp3" type="audio/mp3">''
                   @ ''</audio>''))\<close>
  using getEmbeddedHtml_audio_video
          [of "sample_module\<lparr>contents := [sample_file\<lparr>filename := ''song.mp3''\<rparr>]\<rparr>"
              "sample_file\<lparr>filename := ''song.mp3''\<rparr>" "[]" sample_env
              "\<lparr>path = ''/data/song.mp3''\<rparr>" "''audio''"]
  by (simp add: sample_env_def sample_module_def sample_file_def)

text \<open>
  Claim C8. With the path join of the specification, a package directory \<^verbatim>\<open>/cache/42\<close>,
  and a single content entry \<^verbatim>\<open>index.html\<close> at the root sub-path \<^verbatim>\<open>/\<close>, \<^verbatim>\<open>getIframeSrc\<close>
  resolves with \<^verbatim>\<open>/cache/42index.html\<close>: the helper passes the file name alone as the
  relative path, and the join puts no separator between the two.
\<close>

theorem getIframeSrc_root_subpath_scenario:
  "concatenatePaths e = concatenatePaths_spec \<Longrightarrow>
   getPackageDirUrlByUrl e (getCurrentSiteId e) (url m) = Inr ''/cache/42'' \<Longrightarrow>
   contents m = [mainFile] \<Longrightarrow>
   filepath mainFile = ''/'' \<Longrightarrow>
   filename mainFile = ''index.html'' \<Longrightarrow>
   getIframeSrc e m = Inr (Inr ''/cache/42index.html'')"
  by (simp add: getIframeSrc_def at0_def p_then_def p_catch_def mainFilePath_def
        concatenatePaths_spec_def)

text \<open>The same at a concrete input.\<close>

theorem getIframeSrc_root_subpath_scenario_witness:
  "concatenatePaths (sample_env\<lparr>concatenatePaths := concatenatePaths_spec\<rparr>) = concatenatePaths_spec
   \<and> getPackageDirUrlByUrl (sample_env\<lparr>concatenatePaths := concatenatePaths_spec\<rparr>)
         (getCurrentSiteId (sample_env\<lparr>concatenatePaths := concatenatePaths_spec\<rparr>)) (url sample_module)
       = Inr ''/cache/42''
   \<and> contents sample_module = [sample_file]
   \<and> filepath sample_file = ''/''
   \<and> filename sample_file = ''index.html''
   \<and> getIframeSrc (sample_env\<lparr>concatenatePaths := concatenatePaths_spec\<rparr>) sample_module
       = Inr (Inr ''/cache/42index.html'')"
  using getIframeSrc_root_subpath_scenario [of "sample_env\<lparr>concatenatePaths := concatenatePaths_spec\<rparr>" sample_module sample_file]
  by (simp add: sample_env_def sample_module_def sample_file_def)

text \<open>
  Claim C9. Both failures of \<^verbatim>\<open>getIframeSrc\<close>, the empty \<^verbatim>\<open>contents\<close> and the missing
  package directory with no usable remote URL, reject with \<^verbatim>\<open>null\<close>; every rejection of
  \<^verbatim>\<open>getIframeSrc\<close> carries \<^verbatim>\<open>null\<close> and nothing else, so the rejection value does not tell
  the two apart.
\<close>

theorem getIframeSrc_rejects_with_null:
  "(contents m = [] \<longrightarrow> getIframeSrc e m = Inr (Inl Null))
   \<and> (\<forall>mainFile rest r.
         contents m = mainFile # rest
         \<and> getPackageDirUrlByUrl e (getCurrentSiteId e) (url m) = Inl r
         \<and> (\<not> isOnline e \<or> fileurl mainFile = None \<or> fileurl mainFile = Some []) \<longrightarrow>
         getIframeSrc e m = Inr (Inl Null))
   \<and> (\<forall>r. getIframeSrc e m = Inr (Inl r) \<longrightarrow> r = Null)"
  by (auto simp: getIframeSrc_def at0_def p_then_def p_catch_def
           split: option.splits list.splits sum.splits if_splits)

text \<open>The same at a concrete input.\<close>

theorem getIframeSrc_rejects_with_null_witness:
  "getIframeSrc sample_env (sample_module\<lparr>contents := []\<rparr>) = Inr (Inl Null)
   \<and> getIframeSrc (sample_env\<lparr>getPackageDirUrlByUrl := \<lambda>_ _. Inl (Cause ''not downloaded''),
                               isOnline := False\<rparr>) sample_module
       = Inr (Inl Null)"
  using getIframeSrc_rejects_with_null [of "sample_module\<lparr>contents := []\<rparr>" sample_env]
        getIframeSrc_rejects_with_null
          [of sample_module
              "sample_env\<lparr>getPackageDirUrlByUrl := \<lambda>_ _. Inl (Cause ''not downloaded''),
                          isOnline := False\<rparr>"]
  by (simp add: sample_env_def sample_module_def sample_file_def)

text \<open>
  Claim C10. \<^verbatim>\<open>getEmbeddedHtml\<close> does not check for empty \<^verbatim>\<open>contents\<close>. When \<^verbatim>\<open>contents\<close> is
  empty and the download succeeds all the same, reading the file name of the absent
  first entry throws inside the \<^verbatim>\<open>then\<close> callback: the promise is rejected with a
  TypeError, and is not resolved with any markup, the empty string included.
\<close>

theorem getEmbeddedHtml_unguarded_first_entry:
  "contents m = [] \<Longrightarrow>
   downloadModuleWithMainFileIfNeeded e m (course_m m) (COMPONENT e) (id_m m) (contents m)
     = Inr result \<Longrightarrow>
   getEmbeddedHtml e m = Inr (Inl (Exception TypeError))
   \<and> (\<forall>markup. getEmbeddedHtml e m \<noteq> Inr (Inr markup))"
  by (simp add: getEmbeddedHtml_def p_then_def at0_def)

text \<open>The same at a concrete input.\<close>

theorem getEmbeddedHtml_unguarded_first_entry_witness:
  "contents (sample_module\<lparr>contents := []\<rparr>) = []
   \<and> getEmbeddedHtml sample_env (sample_module\<lparr>contents := []\<rparr>) = Inr (Inl (Exception TypeError))
   \<and> getEmbeddedHtml sample_env (sample_module\<lparr>contents := []\<rparr>) \<noteq> Inr (Inr [])"
  using getEmbeddedHtml_unguarded_first_entry
          [of "sample_module\<lparr>contents := []\<rparr>" sample_env "\<lparr>path = ''/data/song.mp3''\<rparr>"]
  by (simp add: sample_env_def sample_module_def)

end
